theory Spec2Isabelle
  imports Main
begin

section \<open>Values, completions and the JavaScript operations the services rely on\<close>

text \<open>
  An \<^verbatim>\<open>async\<close> function of the sources ends in one of three ways: its promise
  resolves to a value, it rejects with an error (a \<^verbatim>\<open>throw\<close>), or the
  process is terminated from inside it (\<^verbatim>\<open>process.exit(1)\<close> in the SQL wrapper),
  which no \<^verbatim>\<open>catch\<close> block intercepts.
\<close>

datatype js_error = TypeError | Error string

datatype 'a completion = Returned 'a | Thrown js_error | Exited nat

text \<open>
  The interface \<^verbatim>\<open>Post\<close> (\<^verbatim>\<open>id?\<close>, \<^verbatim>\<open>title\<close>, \<^verbatim>\<open>link\<close>,
  \<^verbatim>\<open>content\<close>, \<^verbatim>\<open>pubDate\<close>, \<^verbatim>\<open>feedId\<close>, \<^verbatim>\<open>sent\<close>). A row
  of the table \<^verbatim>\<open>posts\<close> read with \<^verbatim>\<open>SELECT *\<close> is such an object that also
  carries the column \<^verbatim>\<open>hash\<close>; a candidate built by the fetcher has neither
  \<^verbatim>\<open>id\<close> nor \<^verbatim>\<open>hash\<close>. Dates are instants on an integer time line.
\<close>

record post =
  post_id :: "nat option"
  title :: string
  link :: string
  hash :: "string option"
  content :: string
  pubDate :: int
  feedId :: nat
  sent :: bool

text \<open>
  Modelled from the spec: the interface \<^verbatim>\<open>Feed\<close> of \<^verbatim>\<open>models/Feed\<close>, which
  the sources import but do not contain. Its fields are the columns of the table
  \<^verbatim>\<open>feeds\<close> created by \<^verbatim>\<open>createTables\<close>; \<^verbatim>\<open>id\<close> is optional, as the
  test \<^verbatim>\<open>feed.id === undefined\<close> of \<^verbatim>\<open>processFeeds\<close> requires.
\<close>

record feed =
  feed_id :: "nat option"
  url :: string
  url_hash :: "string option"
  lastChecked :: "int option"

text \<open>The result header the driver hands back for a statement that changes rows.\<close>

record ok_packet =
  affectedRows :: nat
  insertId :: nat

datatype jsval =
    JUndefined
  | JPost post
  | JFeed feed
  | JHeader ok_packet
  | JArr "jsval list"

text \<open>
  \<^verbatim>\<open>const [x] = v\<close>: array destructuring takes the first element of an array
  (\<^verbatim>\<open>undefined\<close> when the array is empty) and throws a \<^verbatim>\<open>TypeError\<close> when
  \<^verbatim>\<open>v\<close> is not iterable, as a plain object and \<^verbatim>\<open>undefined\<close> are.
\<close>

fun first_of :: "jsval \<Rightarrow> jsval completion" where
  "first_of (JArr []) = Returned JUndefined"
| "first_of (JArr (x # xs)) = Returned x"
| "first_of v = Thrown TypeError"

text \<open>\<^verbatim>\<open>a || b\<close> on these values: objects and arrays (empty ones too) are truthy.\<close>

fun js_or :: "jsval \<Rightarrow> jsval \<Rightarrow> jsval" where
  "js_or JUndefined b = b"
| "js_or a b = a"

text \<open>\<^verbatim>\<open>s || d\<close> on an optional string: \<^verbatim>\<open>undefined\<close> and \<^verbatim>\<open>''\<close> are falsy.\<close>

fun str_or :: "string option \<Rightarrow> string \<Rightarrow> string" where
  "str_or None d = d"
| "str_or (Some s) d = (if s = [] then d else s)"

text \<open>\<^verbatim>\<open>await e\<close> followed by the rest of the function body.\<close>

definition await :: "'a completion \<times> 's \<Rightarrow> ('a \<Rightarrow> 's \<Rightarrow> 'b completion \<times> 's) \<Rightarrow> 'b completion \<times> 's" where
  "await r k =
     (case r of
        (Returned v, s) \<Rightarrow> k v s
      | (Thrown e, s) \<Rightarrow> (Thrown e, s)
      | (Exited n, s) \<Rightarrow> (Exited n, s))"

section \<open>The store: the tables of \<^verbatim>\<open>createTables\<close> and the statements sent to them\<close>

text \<open>
  The tables \<^verbatim>\<open>feeds\<close> and \<^verbatim>\<open>posts\<close> in insertion order, each with its
  \<^verbatim>\<open>AUTO_INCREMENT\<close> counter. The counters advance on every attempted insert, so
  identifiers may have gaps. Connection failures are outside the model: a statement
  fails only for the reasons its text and the constraints of the tables give.
\<close>

record db =
  feeds :: "feed list"
  posts :: "post list"
  feeds_auto_increment :: nat
  posts_auto_increment :: nat

text \<open>
  The five statements the services send, with their bound parameters:
  the \<^verbatim>\<open>INSERT IGNORE INTO posts\<close> of \<^verbatim>\<open>saveNewPosts\<close> (title, link, content,
  pubDate, feedId), the \<^verbatim>\<open>SELECT\<close> of \<^verbatim>\<open>getUnsentPosts\<close>, the
  \<^verbatim>\<open>INSERT INTO feeds\<close> of \<^verbatim>\<open>addFeed\<close>, the \<^verbatim>\<open>SELECT\<close> of
  \<^verbatim>\<open>listFeeds\<close>, and the \<^verbatim>\<open>UPDATE\<close> of \<^verbatim>\<open>markPostsAsSent\<close>, whose
  identifier list is spliced into the text with \<^verbatim>\<open>join(',')\<close> (an
  \<^verbatim>\<open>undefined\<close> element is spliced as the empty string).
\<close>

datatype statement =
    INSERT_IGNORE_posts string string string int nat
  | SELECT_unsent_posts
  | INSERT_feeds string
  | SELECT_feeds
  | UPDATE_posts_sent "nat option list"

datatype sql_error = ER_DUP_ENTRY | ER_PARSE_ERROR

text \<open>
  \<^verbatim>\<open>connection.query(str, params)\<close> of the driver resolves to the pair
  \<^verbatim>\<open>[results, fields]\<close>: \<^verbatim>\<open>results\<close> is the array of row objects for a
  \<^verbatim>\<open>SELECT\<close> and a result header otherwise. The first parameter \<open>SHA2\<close> stands
  for \<^verbatim>\<open>SHA2(_, 256)\<close> of the two \<^verbatim>\<open>BEFORE INSERT\<close> triggers.

  \<^item> \<^verbatim>\<open>posts\<close>: \<^verbatim>\<open>hash\<close> and \<^verbatim>\<open>link\<close> are \<^verbatim>\<open>UNIQUE\<close>,
    \<^verbatim>\<open>feedId\<close> references \<^verbatim>\<open>feeds(id)\<close>; under \<^verbatim>\<open>INSERT IGNORE\<close> a row
    that violates one of them is discarded with a warning instead of an error.
  \<^item> \<^verbatim>\<open>feeds\<close>: \<^verbatim>\<open>url_hash\<close> is \<^verbatim>\<open>UNIQUE\<close>; the plain \<^verbatim>\<open>INSERT\<close>
    fails on a duplicate.
  \<^item> \<^verbatim>\<open>SELECT * FROM posts WHERE sent = FALSE ORDER BY pubDate DESC\<close> yields
    \<open>unsent_rows\<close>; the sort is stable here, the statement does not fix the order among
    equal dates.
  \<^item> \<^verbatim>\<open>SELECT id, url, lastChecked FROM feeds\<close> yields \<open>feed_rows\<close>.
\<close>

definition unsent_rows :: "db \<Rightarrow> post list" where
  "unsent_rows s = sort_key (\<lambda>r. - pubDate r) (filter (\<lambda>r. \<not> sent r) (posts s))"

definition feed_rows :: "db \<Rightarrow> feed list" where
  "feed_rows s = map (\<lambda>r. r\<lparr>url_hash := None\<rparr>) (feeds s)"

fun connection_query :: "(string \<Rightarrow> string) \<Rightarrow> statement \<Rightarrow> db \<Rightarrow> (sql_error + jsval) \<times> db" where
  "connection_query SHA2 (INSERT_IGNORE_posts t l c d f) s =
     (let n = posts_auto_increment s; s' = s\<lparr>posts_auto_increment := Suc n\<rparr> in
      if (\<exists>r \<in> set (posts s). hash r = Some (SHA2 t) \<or> link r = l)
         \<or> Some f \<notin> set (map feed_id (feeds s))
      then (Inr (JArr [JHeader \<lparr>affectedRows = 0, insertId = 0\<rparr>, JUndefined]), s')
      else (Inr (JArr [JHeader \<lparr>affectedRows = 1, insertId = n\<rparr>, JUndefined]),
            s'\<lparr>posts := posts s @
              [\<lparr>post_id = Some n, title = t, link = l, hash = Some (SHA2 t), content = c,
                pubDate = d, feedId = f, sent = False\<rparr>]\<rparr>))"
| "connection_query SHA2 SELECT_unsent_posts s =
     (Inr (JArr [JArr (map JPost (unsent_rows s)), JArr []]), s)"
| "connection_query SHA2 (INSERT_feeds u) s =
     (let n = feeds_auto_increment s; s' = s\<lparr>feeds_auto_increment := Suc n\<rparr> in
      if \<exists>r \<in> set (feeds s). url_hash r = Some (SHA2 u)
      then (Inl ER_DUP_ENTRY, s')
      else (Inr (JArr [JHeader \<lparr>affectedRows = 1, insertId = n\<rparr>, JUndefined]),
            s'\<lparr>feeds := feeds s @
              [\<lparr>feed_id = Some n, url = u, url_hash = Some (SHA2 u), lastChecked = None\<rparr>]\<rparr>))"
| "connection_query SHA2 SELECT_feeds s =
     (Inr (JArr [JArr (map JFeed (feed_rows s)), JArr []]), s)"
| "connection_query SHA2 (UPDATE_posts_sent ids) s =
     (if ids = [] \<or> None \<in> set ids then (Inl ER_PARSE_ERROR, s)
      else (Inr (JArr [JHeader \<lparr>affectedRows = length (filter (\<lambda>r. post_id r \<in> set ids) (posts s)),
                               insertId = 0\<rparr>, JUndefined]),
            s\<lparr>posts := map (\<lambda>r. if post_id r \<in> set ids then r\<lparr>sent := True\<rparr> else r) (posts s)\<rparr>))"

text \<open>
  The wrapper \<^verbatim>\<open>sql\<close>: it keeps the first component of what the driver resolves to
  and returns it; any error inside its \<^verbatim>\<open>try\<close> block ends the process with
  \<^verbatim>\<open>process.exit(1)\<close>. The statement texts are never empty and the connection is
  taken as open, so the two guards before the \<^verbatim>\<open>try\<close> do not fire.
\<close>

definition sql :: "(string \<Rightarrow> string) \<Rightarrow> statement \<Rightarrow> db \<Rightarrow> jsval completion \<times> db" where
  "sql SHA2 str s =
     (case connection_query SHA2 str s of
        (Inl e, s') \<Rightarrow> (Exited 1, s')
      | (Inr v, s') \<Rightarrow>
          (case first_of v of
             Returned results \<Rightarrow> (Returned results, s')
           | _ \<Rightarrow> (Exited 1, s')))"

section \<open>\<^verbatim>\<open>DatabaseService\<close>\<close>

text \<open>
  \<^verbatim>\<open>saveNewPosts\<close>: one \<^verbatim>\<open>INSERT IGNORE\<close> per candidate, in order; an error
  thrown by \<^verbatim>\<open>sql\<close> would be logged and the loop would go on.
\<close>

fun saveNewPosts :: "(string \<Rightarrow> string) \<Rightarrow> post list \<Rightarrow> db \<Rightarrow> unit completion \<times> db" where
  "saveNewPosts SHA2 [] s = (Returned (), s)"
| "saveNewPosts SHA2 (p # ps) s =
     (case sql SHA2 (INSERT_IGNORE_posts (title p) (link p) (content p) (pubDate p) (feedId p)) s of
        (Exited n, s') \<Rightarrow> (Exited n, s')
      | (_, s') \<Rightarrow> saveNewPosts SHA2 ps s')"

text \<open>
  \<^verbatim>\<open>markPostsAsSent\<close>: returns at once on an empty list, otherwise one
  \<^verbatim>\<open>UPDATE\<close> over the identifiers given.
\<close>

definition markPostsAsSent :: "(string \<Rightarrow> string) \<Rightarrow> nat option list \<Rightarrow> db \<Rightarrow> unit completion \<times> db" where
  "markPostsAsSent SHA2 ids s =
     (if length ids = 0 then (Returned (), s)
      else await (sql SHA2 (UPDATE_posts_sent ids) s) (\<lambda>_ s'. (Returned (), s')))"

text \<open>
  \<^verbatim>\<open>getUnsentPosts\<close>: \<^verbatim>\<open>const [rows] = (await sql(...)) || [[]]\<close>, then
  \<^verbatim>\<open>posts.slice(0, 1)\<close> in development mode and \<^verbatim>\<open>posts || []\<close> otherwise.
  \<^verbatim>\<open>slice\<close> exists on arrays only; on any other value the call throws a
  \<^verbatim>\<open>TypeError\<close> (on \<^verbatim>\<open>undefined\<close> already the \<^verbatim>\<open>posts[0]\<close> of the
  log line before it does).
\<close>

fun js_slice_0_1 :: "jsval \<Rightarrow> jsval completion" where
  "js_slice_0_1 (JArr xs) = Returned (JArr (take 1 xs))"
| "js_slice_0_1 v = Thrown TypeError"

definition getUnsentPosts :: "(string \<Rightarrow> string) \<Rightarrow> bool \<Rightarrow> db \<Rightarrow> jsval completion \<times> db" where
  "getUnsentPosts SHA2 dev s =
     await (sql SHA2 SELECT_unsent_posts s) (\<lambda>res s'.
       case first_of (js_or res (JArr [JArr []])) of
         Returned rows \<Rightarrow>
           if dev then (js_slice_0_1 rows, s')
           else (Returned (js_or rows (JArr [])), s')
       | Thrown e \<Rightarrow> (Thrown e, s')
       | Exited n \<Rightarrow> (Exited n, s'))"

text \<open>
  \<^verbatim>\<open>addFeed\<close>: \<^verbatim>\<open>const [result] = (await sql(...)) || []\<close>, then
  \<^verbatim>\<open>result.insertId\<close>; the \<^verbatim>\<open>catch\<close> block logs and throws the error again.
  Reading a property of \<^verbatim>\<open>undefined\<close> throws; a property an object does not have
  reads as \<^verbatim>\<open>undefined\<close>.
\<close>

fun insertId_of :: "jsval \<Rightarrow> nat option completion" where
  "insertId_of (JHeader h) = Returned (Some (insertId h))"
| "insertId_of JUndefined = Thrown TypeError"
| "insertId_of v = Returned None"

definition addFeed :: "(string \<Rightarrow> string) \<Rightarrow> bool \<Rightarrow> string \<Rightarrow> db \<Rightarrow> nat option completion \<times> db" where
  "addFeed SHA2 dev u s =
     await (sql SHA2 (INSERT_feeds u) s) (\<lambda>res s'.
       case first_of (js_or res (JArr [])) of
         Returned result \<Rightarrow> (insertId_of result, s')
       | Thrown e \<Rightarrow> (Thrown e, s')
       | Exited n \<Rightarrow> (Exited n, s'))"

text \<open>
  \<^verbatim>\<open>listFeeds\<close>: \<^verbatim>\<open>const [feeds] = (await sql(...)) || [[]]\<close>, returned as it
  is; the \<^verbatim>\<open>catch\<close> block logs and throws the error again.
\<close>

definition listFeeds :: "(string \<Rightarrow> string) \<Rightarrow> db \<Rightarrow> jsval completion \<times> db" where
  "listFeeds SHA2 s =
     await (sql SHA2 SELECT_feeds s) (\<lambda>res s'.
       case first_of (js_or res (JArr [JArr []])) of
         Returned feeds' \<Rightarrow> (Returned feeds', s')
       | Thrown e \<Rightarrow> (Thrown e, s')
       | Exited n \<Rightarrow> (Exited n, s'))"

section \<open>The outside world of a tick\<close>

text \<open>
  What the parser library hands over for one entry of a feed document: every field may
  be missing.
\<close>

record rss_item =
  item_title :: "string option"
  item_link :: "string option"
  item_content :: "string option"
  item_contentSnippet :: "string option"
  item_pubDate :: "string option"

text \<open>
  The behaviour of the collaborators outside the program: what
  \<^verbatim>\<open>parser.parseURL\<close> yields for an address (the items, or the error it rejects
  with), the clock reading \<^verbatim>\<open>Date.now()\<close> taken while the item at a given position
  is mapped, the instant \<^verbatim>\<open>new Date(str)\<close> denotes, and the answer of the mail
  service to \<^verbatim>\<open>sesClient.send\<close>: the error it rejects with, or the
  \<^verbatim>\<open>httpStatusCode\<close> of its response metadata (which may be absent).
\<close>

record env =
  parseURL :: "string \<Rightarrow> js_error + rss_item list"
  Date_now :: "nat \<Rightarrow> int"
  Date_parse :: "string \<Rightarrow> int"
  ses_send :: "post list \<Rightarrow> js_error + nat option"

text \<open>
  The state a tick acts on: the store, the addresses requested from the network so far,
  and the digests handed to the mail service so far. Console output is not recorded.
\<close>

record world =
  store :: db
  requests :: "string list"
  outbox :: "post list list"

definition on_store :: "(db \<Rightarrow> 'a completion \<times> db) \<Rightarrow> world \<Rightarrow> 'a completion \<times> world" where
  "on_store f w = (case f (store w) of (c, s) \<Rightarrow> (c, w\<lparr>store := s\<rparr>))"

section \<open>\<^verbatim>\<open>RssService.fetchFeed\<close>\<close>

text \<open>The arrow function mapped over \<^verbatim>\<open>feed.items\<close>; \<open>k\<close> is the item's position.\<close>

definition item_to_post :: "env \<Rightarrow> nat \<Rightarrow> nat \<Rightarrow> rss_item \<Rightarrow> post" where
  "item_to_post E feedId' k item =
     \<lparr>post_id = None,
      title = str_or (item_title item) [],
      link = str_or (item_link item) [],
      hash = None,
      content = str_or (item_content item) (str_or (item_contentSnippet item) []),
      pubDate = (case item_pubDate item of
                   None \<Rightarrow> Date_now E k
                 | Some str \<Rightarrow> if str = [] then Date_now E k else Date_parse E str),
      feedId = feedId',
      sent = False\<rparr>"

definition fetchFeed :: "env \<Rightarrow> bool \<Rightarrow> string \<Rightarrow> nat \<Rightarrow> world \<Rightarrow> post list completion \<times> world" where
  "fetchFeed E dev feedUrl feedId' w =
     (let w' = w\<lparr>requests := requests w @ [feedUrl]\<rparr> in
      case parseURL E feedUrl of
        Inl error \<Rightarrow> (Returned [], w')
      | Inr items \<Rightarrow>
          (let posts' = map (\<lambda>(k, item). item_to_post E feedId' k item) (enumerate 0 items) in
           if dev then (Returned (take 1 posts'), w') else (Returned posts', w')))"

section \<open>\<^verbatim>\<open>EmailService.sendNewPosts\<close>\<close>

definition sendNewPosts :: "env \<Rightarrow> bool \<Rightarrow> post list \<Rightarrow> world \<Rightarrow> bool completion \<times> world" where
  "sendNewPosts E dev ps w =
     (if length ps = 0 then (Returned False, w)
      else if dev then (Returned True, w)
      else (let w' = w\<lparr>outbox := outbox w @ [ps]\<rparr> in
            case ses_send E ps of
              Inl error \<Rightarrow> (Thrown error, w')
            | Inr status \<Rightarrow> (Returned (status = Some 200), w')))"

section \<open>\<^verbatim>\<open>App.processFeeds\<close>\<close>

text \<open>
  The orchestrator works on the values that the methods of \<^verbatim>\<open>DatabaseService\<close>
  above resolve to, whatever the declared types say. Reading a property of
  \<^verbatim>\<open>undefined\<close> throws a \<^verbatim>\<open>TypeError\<close>; a property an object does not have
  reads as \<^verbatim>\<open>undefined\<close>. Of the values here only a feed row has a
  \<^verbatim>\<open>url\<close>, and only feed rows and post rows have an \<^verbatim>\<open>id\<close>.
\<close>

fun js_id :: "jsval \<Rightarrow> nat option completion" where
  "js_id JUndefined = Thrown TypeError"
| "js_id (JFeed f) = Returned (feed_id f)"
| "js_id (JPost p) = Returned (post_id p)"
| "js_id v = Returned None"

fun js_url :: "jsval \<Rightarrow> string option" where
  "js_url (JFeed f) = Some (url f)"
| "js_url v = None"

text \<open>The post rows among the elements of an array.\<close>

fun post_rows :: "jsval list \<Rightarrow> post list" where
  "post_rows [] = []"
| "post_rows (JPost p # xs) = p # post_rows xs"
| "post_rows (v # xs) = post_rows xs"

text \<open>
  The body of \<^verbatim>\<open>for (const feed of feeds)\<close>, run over the elements of an array:
  an element whose \<^verbatim>\<open>id\<close> is \<^verbatim>\<open>undefined\<close> is skipped with
  \<^verbatim>\<open>continue\<close>; otherwise the feed is fetched and its candidates are saved, and
  in development mode the loop is left after that. (An element that has an
  \<^verbatim>\<open>id\<close> but no \<^verbatim>\<open>url\<close> hands \<^verbatim>\<open>undefined\<close> to the parser, whose call
  fails inside the \<^verbatim>\<open>try\<close> block of the fetcher.)
\<close>

fun feedLoop :: "(string \<Rightarrow> string) \<Rightarrow> env \<Rightarrow> bool \<Rightarrow> jsval list \<Rightarrow> world \<Rightarrow> unit completion \<times> world" where
  "feedLoop SHA2 E dev [] w = (Returned (), w)"
| "feedLoop SHA2 E dev (feed # rest) w =
     (case js_id feed of
        Thrown e \<Rightarrow> (Thrown e, w)
      | Exited n \<Rightarrow> (Exited n, w)
      | Returned None \<Rightarrow> feedLoop SHA2 E dev rest w
      | Returned (Some i) \<Rightarrow>
          await (case js_url feed of
                   Some u \<Rightarrow> fetchFeed E dev u i w
                 | None \<Rightarrow> (Returned [], w)) (\<lambda>posts' w1.
          await (on_store (saveNewPosts SHA2 posts') w1) (\<lambda>_ w2.
            if dev then (Returned (), w2) else feedLoop SHA2 E dev rest w2)))"

text \<open>\<^verbatim>\<open>try { ... } catch (error) { console.error(...) }\<close> around the whole body.\<close>

definition catch_log :: "unit completion \<times> 's \<Rightarrow> unit completion \<times> 's" where
  "catch_log r = (case r of (Thrown e, s) \<Rightarrow> (Returned (), s) | _ \<Rightarrow> r)"

text \<open>
  \<^verbatim>\<open>processFeeds\<close>, with the three services of \<^verbatim>\<open>App\<close>, which all receive the
  same development flag.

  \<^item> \<^verbatim>\<open>for (const feed of feeds)\<close> iterates an array and throws a
    \<^verbatim>\<open>TypeError\<close> on a value that is not iterable, as a row object and
    \<^verbatim>\<open>undefined\<close> are.
  \<^item> \<^verbatim>\<open>unsentPosts.length > 0\<close> compares the length of an array; on an object
    without a \<^verbatim>\<open>length\<close> it is \<^verbatim>\<open>undefined > 0\<close>, which is false.
  \<^item> The return value of \<^verbatim>\<open>sendNewPosts\<close> is not read.
\<close>

definition processFeeds :: "(string \<Rightarrow> string) \<Rightarrow> env \<Rightarrow> bool \<Rightarrow> world \<Rightarrow> unit completion \<times> world" where
  "processFeeds SHA2 E dev w =
     catch_log
       (await (on_store (listFeeds SHA2) w) (\<lambda>feeds' w1.
        await (case feeds' of
                 JArr xs \<Rightarrow> feedLoop SHA2 E dev xs w1
               | _ \<Rightarrow> (Thrown TypeError, w1)) (\<lambda>_ w2.
        await (on_store (getUnsentPosts SHA2 dev) w2) (\<lambda>unsentPosts w3.
          case unsentPosts of
            JArr xs \<Rightarrow>
              if length xs > 0
              then await (sendNewPosts E dev (post_rows xs) w3) (\<lambda>_ w4.
                     on_store (markPostsAsSent SHA2 (map post_id (post_rows xs))) w4)
              else (Returned (), w3)
          | JUndefined \<Rightarrow> (Thrown TypeError, w3)
          | _ \<Rightarrow> (Returned (), w3)))))"

section \<open>Notions used to state the properties\<close>

text \<open>
  The condition under which the \<^verbatim>\<open>INSERT IGNORE\<close> of a candidate is discarded: a
  stored row has its title fingerprint or its link, or its feed does not exist.
\<close>

definition rejects :: "(string \<Rightarrow> string) \<Rightarrow> db \<Rightarrow> post \<Rightarrow> bool" where
  "rejects SHA2 s p \<longleftrightarrow>
     (\<exists>r \<in> set (posts s). hash r = Some (SHA2 (title p)) \<or> link r = link p)
     \<or> Some (feedId p) \<notin> set (map feed_id (feeds s))"

text \<open>The store after the single insert \<^verbatim>\<open>saveNewPosts\<close> issues for one candidate.\<close>

definition insert1 :: "(string \<Rightarrow> string) \<Rightarrow> post \<Rightarrow> db \<Rightarrow> db" where
  "insert1 SHA2 p s =
     snd (sql SHA2 (INSERT_IGNORE_posts (title p) (link p) (content p) (pubDate p) (feedId p)) s)"

text \<open>
  What the trigger and the \<^verbatim>\<open>UNIQUE\<close> index on \<^verbatim>\<open>hash\<close> maintain: every row
  carries the fingerprint of its title, and no two rows share a fingerprint.
\<close>

definition fingerprinted :: "(string \<Rightarrow> string) \<Rightarrow> db \<Rightarrow> bool" where
  "fingerprinted SHA2 s \<longleftrightarrow>
     list_all (\<lambda>r. hash r = Some (SHA2 (title r))) (posts s) \<and> distinct (map hash (posts s))"

subsection \<open>Example data\<close>

text \<open>
  Two registered feeds, three stored articles, and an outside world in which the first
  feed cannot be retrieved, the second has one entry, and the mail service answers with
  status 500. In the examples the digest is the identity function, which, as SHA-256 does
  on these strings, gives different strings different fingerprints.
\<close>

definition feed_a :: feed where
  "feed_a = \<lparr>feed_id = Some 1, url = ''http://a.test/feed.xml'',
             url_hash = Some ''http://a.test/feed.xml'', lastChecked = None\<rparr>"

definition feed_b :: feed where
  "feed_b = \<lparr>feed_id = Some 2, url = ''http://b.test/feed.xml'',
             url_hash = Some ''http://b.test/feed.xml'', lastChecked = None\<rparr>"

definition store_ab :: db where
  "store_ab = \<lparr>feeds = [feed_a, feed_b], posts = [],
               feeds_auto_increment = 3, posts_auto_increment = 1\<rparr>"

definition candidate_x :: post where
  "candidate_x = \<lparr>post_id = None, title = ''X'', link = [], hash = None, content = [],
                  pubDate = 10, feedId = 1, sent = False\<rparr>"

definition candidate_y :: post where
  "candidate_y = \<lparr>post_id = None, title = ''Y'', link = [], hash = None, content = [],
                  pubDate = 20, feedId = 1, sent = False\<rparr>"

definition row_x :: post where
  "row_x = \<lparr>post_id = Some 1, title = ''X'', link = ''http://a.test/x'', hash = Some ''X'',
            content = [], pubDate = 10, feedId = 1, sent = False\<rparr>"

definition row_y :: post where
  "row_y = \<lparr>post_id = Some 2, title = ''Y'', link = ''http://a.test/y'', hash = Some ''Y'',
            content = [], pubDate = 20, feedId = 1, sent = False\<rparr>"

definition row_z :: post where
  "row_z = \<lparr>post_id = Some 3, title = ''Z'', link = ''http://a.test/z'', hash = Some ''Z'',
            content = [], pubDate = 30, feedId = 1, sent = True\<rparr>"

definition store_xyz :: db where
  "store_xyz = \<lparr>feeds = [feed_a, feed_b], posts = [row_x, row_y, row_z],
                feeds_auto_increment = 3, posts_auto_increment = 4\<rparr>"

definition item_b1 :: rss_item where
  "item_b1 = \<lparr>item_title = Some ''B1'', item_link = Some ''http://b.test/1'',
              item_content = None, item_contentSnippet = None, item_pubDate = None\<rparr>"

definition env_example :: env where
  "env_example =
     \<lparr>parseURL = (\<lambda>u. if u = ''http://b.test/feed.xml'' then Inr [item_b1]
                       else Inl (Error ''getaddrinfo ENOTFOUND'')),
      Date_now = (\<lambda>k. 100 + int k),
      Date_parse = (\<lambda>str. 50),
      ses_send = (\<lambda>ps. Inr (Some 500))\<rparr>"

definition world_ab :: world where
  "world_ab = \<lparr>store = store_ab, requests = [], outbox = []\<rparr>"

definition world_xyz :: world where
  "world_xyz = \<lparr>store = store_xyz, requests = [], outbox = []\<rparr>"

section \<open>The article store\<close>

subsection \<open>Single inserts and batches\<close>


lemma saveNewPosts_Cons:
  "saveNewPosts SHA2 (p # ps) s = saveNewPosts SHA2 ps (insert1 SHA2 p s)"
  by (simp add: insert1_def sql_def Let_def)

lemma insert1_rejected:
  "rejects SHA2 s p \<Longrightarrow> insert1 SHA2 p s = s\<lparr>posts_auto_increment := Suc (posts_auto_increment s)\<rparr>"
  by (simp add: insert1_def sql_def Let_def rejects_def)

lemma insert1_accepted:
  "\<not> rejects SHA2 s p \<Longrightarrow> insert1 SHA2 p s =
     s\<lparr>posts_auto_increment := Suc (posts_auto_increment s),
       posts := posts s @ [\<lparr>post_id = Some (posts_auto_increment s), title = title p, link = link p,
          hash = Some (SHA2 (title p)), content = content p, pubDate = pubDate p, feedId = feedId p, sent = False\<rparr>]\<rparr>"
  by (simp add: insert1_def sql_def Let_def rejects_def)

lemma insert1_feeds: "feeds (insert1 SHA2 p s) = feeds s"
  by (cases "rejects SHA2 s p") (simp_all add: insert1_rejected insert1_accepted)

lemma insert1_posts_mono: "set (posts s) \<subseteq> set (posts (insert1 SHA2 p s))"
  by (cases "rejects SHA2 s p") (auto simp add: insert1_rejected insert1_accepted)

lemma insert1_then_rejects: "rejects SHA2 (insert1 SHA2 p s) p"
  by (cases "rejects SHA2 s p") (auto simp add: insert1_rejected insert1_accepted rejects_def)

lemma saveNewPosts_returns: "fst (saveNewPosts SHA2 ps s) = Returned ()"
  by (induction ps arbitrary: s) (simp_all add: saveNewPosts_Cons del: saveNewPosts.simps(2))

lemma saveNewPosts_feeds: "feeds (snd (saveNewPosts SHA2 ps s)) = feeds s"
  by (induction ps arbitrary: s) (simp_all add: saveNewPosts_Cons insert1_feeds del: saveNewPosts.simps(2))

lemma saveNewPosts_posts_mono: "set (posts s) \<subseteq> set (posts (snd (saveNewPosts SHA2 ps s)))"
proof (induction ps arbitrary: s)
  case Nil
  then show ?case by simp
next
  case (Cons p ps)
  have "set (posts s) \<subseteq> set (posts (insert1 SHA2 p s))" by (rule insert1_posts_mono)
  also have "\<dots> \<subseteq> set (posts (snd (saveNewPosts SHA2 ps (insert1 SHA2 p s))))" by (rule Cons.IH)
  finally show ?case by (simp add: saveNewPosts_Cons del: saveNewPosts.simps(2))
qed

lemma rejects_mono:
  "rejects SHA2 s p \<Longrightarrow> set (posts s) \<subseteq> set (posts s') \<Longrightarrow> feeds s' = feeds s \<Longrightarrow> rejects SHA2 s' p"
  unfolding rejects_def by auto

lemma saveNewPosts_then_rejects:
  "p \<in> set ps \<Longrightarrow> rejects SHA2 (snd (saveNewPosts SHA2 ps s)) p"
proof (induction ps arbitrary: s)
  case Nil
  then show ?case by simp
next
  case (Cons q ps)
  show ?case
  proof (cases "p = q")
    case True
    have "rejects SHA2 (insert1 SHA2 q s) q" by (rule insert1_then_rejects)
    then have "rejects SHA2 (snd (saveNewPosts SHA2 ps (insert1 SHA2 q s))) q"
      by (rule rejects_mono) (simp_all add: saveNewPosts_posts_mono saveNewPosts_feeds)
    with True show ?thesis by (simp add: saveNewPosts_Cons del: saveNewPosts.simps(2))
  next
    case False
    with Cons.prems have "p \<in> set ps" by simp
    then show ?thesis by (simp add: saveNewPosts_Cons Cons.IH del: saveNewPosts.simps(2))
  qed
qed

lemma saveNewPosts_all_rejected:
  "\<forall>p \<in> set ps. rejects SHA2 s p \<Longrightarrow> posts (snd (saveNewPosts SHA2 ps s)) = posts s"
proof (induction ps arbitrary: s)
  case Nil
  then show ?case by simp
next
  case (Cons q ps)
  have q: "rejects SHA2 s q" using Cons.prems by simp
  let ?s = "insert1 SHA2 q s"
  have eq: "posts ?s = posts s" "feeds ?s = feeds s" by (simp_all add: insert1_rejected q)
  have "\<forall>p \<in> set ps. rejects SHA2 ?s p"
    using Cons.prems eq by (auto intro: rejects_mono)
  then have "posts (snd (saveNewPosts SHA2 ps ?s)) = posts ?s" by (rule Cons.IH)
  with eq show ?case by (simp add: saveNewPosts_Cons del: saveNewPosts.simps(2))
qed

lemma saveNewPosts_twice:
  "posts (snd (saveNewPosts SHA2 ps (snd (saveNewPosts SHA2 ps s)))) = posts (snd (saveNewPosts SHA2 ps s))"
  by (rule saveNewPosts_all_rejected) (simp add: saveNewPosts_then_rejects)

lemma insert1_fingerprinted: "fingerprinted SHA2 s \<Longrightarrow> fingerprinted SHA2 (insert1 SHA2 p s)"
  by (cases "rejects SHA2 s p")
     (auto simp add: insert1_rejected insert1_accepted fingerprinted_def rejects_def)

lemma saveNewPosts_fingerprinted:
  "fingerprinted SHA2 s \<Longrightarrow> fingerprinted SHA2 (snd (saveNewPosts SHA2 ps s))"
  by (induction ps arbitrary: s) (simp_all add: saveNewPosts_Cons insert1_fingerprinted del: saveNewPosts.simps(2))

lemma distinct_key_filter_le1:
  "distinct (map f xs) \<Longrightarrow> \<forall>x \<in> set xs. P x \<longrightarrow> f x = c \<Longrightarrow> length (filter P xs) \<le> 1"
proof (induction xs)
  case Nil
  then show ?case by simp
next
  case (Cons x xs)
  show ?case
  proof (cases "P x")
    case True
    then have fx: "f x = c" using Cons.prems by simp
    have "filter P xs = []"
    proof (rule ccontr)
      assume "filter P xs \<noteq> []"
      then obtain y where y: "y \<in> set xs" "P y" by (auto simp: filter_empty_conv)
      then have "f y = c" using Cons.prems by simp
      with fx y Cons.prems(1) show False by (auto simp: image_iff)
    qed
    with True show ?thesis by simp
  next
    case False
    with Cons show ?thesis by simp
  qed
qed

lemma fingerprinted_one_per_title:
  "fingerprinted SHA2 s \<Longrightarrow> length (filter (\<lambda>r. title r = t) (posts s)) \<le> 1"
  unfolding fingerprinted_def
  by (rule distinct_key_filter_le1 [where f = hash and c = "Some (SHA2 t)"])
     (auto simp: list_all_iff)

subsection \<open>C2: repeated ingestion\<close>

text \<open>
  C2 as stated fails: two candidates with different titles and the same link
  (here both without a link, which \<open>fetchFeed\<close> turns into the empty string) are ingested
  twice into a store that knows their feed; the second one is discarded by the
  \<^verbatim>\<open>UNIQUE\<close> index on \<^verbatim>\<open>link\<close>, so its title has no stored row at all.
\<close>

theorem saveNewPosts_not_one_row_per_title:
  "filter (\<lambda>r. title r = ''Y'')
     (posts (snd (saveNewPosts (\<lambda>t. t) [candidate_x, candidate_y]
        (snd (saveNewPosts (\<lambda>t. t) [candidate_x, candidate_y] store_ab))))) = []"
  by code_simp

text \<open>
  C2, as amended. \<open>saveNewPosts\<close> never fails. A candidate whose title fingerprint is
  already stored is skipped without an error: nothing changes but the
  \<^verbatim>\<open>AUTO_INCREMENT\<close> counter. After an ingestion every candidate is one that the
  store discards: a stored row carries its title fingerprint or its link, or its feed
  does not exist. Ingesting the same candidates a second time changes no stored row. A
  store whose rows carry the fingerprints of their titles, no two rows the same, holds
  at most one row per title afterwards.
\<close>

theorem saveNewPosts_idempotent:
  "fst (saveNewPosts SHA2 ps s) = Returned ()
   \<and> ((\<exists>r \<in> set (posts s). hash r = Some (SHA2 (title p))) \<longrightarrow>
        saveNewPosts SHA2 [p] s = (Returned (), s\<lparr>posts_auto_increment := Suc (posts_auto_increment s)\<rparr>))
   \<and> (\<forall>q \<in> set ps. rejects SHA2 (snd (saveNewPosts SHA2 ps s)) q)
   \<and> posts (snd (saveNewPosts SHA2 ps (snd (saveNewPosts SHA2 ps s)))) = posts (snd (saveNewPosts SHA2 ps s))
   \<and> (fingerprinted SHA2 s \<longrightarrow>
        length (filter (\<lambda>r. title r = t) (posts (snd (saveNewPosts SHA2 ps s)))) \<le> 1)"
proof (intro conjI impI ballI)
  show "fst (saveNewPosts SHA2 ps s) = Returned ()" by (rule saveNewPosts_returns)
next
  assume "\<exists>r \<in> set (posts s). hash r = Some (SHA2 (title p))"
  then have "rejects SHA2 s p" by (auto simp: rejects_def)
  then show "saveNewPosts SHA2 [p] s = (Returned (), s\<lparr>posts_auto_increment := Suc (posts_auto_increment s)\<rparr>)"
    by (simp add: saveNewPosts_Cons insert1_rejected del: saveNewPosts.simps(2))
next
  fix q assume "q \<in> set ps"
  then show "rejects SHA2 (snd (saveNewPosts SHA2 ps s)) q" by (rule saveNewPosts_then_rejects)
next
  show "posts (snd (saveNewPosts SHA2 ps (snd (saveNewPosts SHA2 ps s)))) = posts (snd (saveNewPosts SHA2 ps s))"
    by (rule saveNewPosts_twice)
next
  assume "fingerprinted SHA2 s"
  then have "fingerprinted SHA2 (snd (saveNewPosts SHA2 ps s))" by (rule saveNewPosts_fingerprinted)
  then show "length (filter (\<lambda>r. title r = t) (posts (snd (saveNewPosts SHA2 ps s)))) \<le> 1"
    by (rule fingerprinted_one_per_title)
qed

theorem saveNewPosts_idempotent_witness:
  "(\<exists>r \<in> set (posts store_xyz). hash r = Some (title candidate_x))
   \<and> saveNewPosts (\<lambda>t. t) [candidate_x] store_xyz = (Returned (), store_xyz\<lparr>posts_auto_increment := 5\<rparr>)
   \<and> fingerprinted (\<lambda>t. t) store_xyz
   \<and> length (filter (\<lambda>r. title r = ''X'') (posts (snd (saveNewPosts (\<lambda>t. t) [candidate_x, candidate_y] store_xyz)))) \<le> 1
   \<and> rejects (\<lambda>t. t) (snd (saveNewPosts (\<lambda>t. t) [candidate_x, candidate_y] store_xyz)) candidate_y"
proof -
  have h1: "\<exists>r \<in> set (posts store_xyz). hash r = Some (title candidate_x)"
    by (simp add: store_xyz_def row_x_def candidate_x_def)
  have h2: "fingerprinted (\<lambda>t. t) store_xyz"
    by (simp add: fingerprinted_def store_xyz_def row_x_def row_y_def row_z_def)
  have h3: "candidate_y \<in> set [candidate_x, candidate_y]" by simp
  have n: "Suc (posts_auto_increment store_xyz) = 5" by (simp add: store_xyz_def)
  from saveNewPosts_idempotent [of "\<lambda>t. t" "[candidate_x]" store_xyz candidate_x "''X''"] h1 n
  have a: "saveNewPosts (\<lambda>t. t) [candidate_x] store_xyz = (Returned (), store_xyz\<lparr>posts_auto_increment := 5\<rparr>)"
    by simp
  from saveNewPosts_idempotent [of "\<lambda>t. t" "[candidate_x, candidate_y]" store_xyz candidate_x "''X''"] h2 h3
  have b: "length (filter (\<lambda>r. title r = ''X'') (posts (snd (saveNewPosts (\<lambda>t. t) [candidate_x, candidate_y] store_xyz)))) \<le> 1"
    and c: "rejects (\<lambda>t. t) (snd (saveNewPosts (\<lambda>t. t) [candidate_x, candidate_y] store_xyz)) candidate_y"
    by blast+
  from h1 a h2 b c show ?thesis by blast
qed

subsection \<open>C6: marking articles as sent\<close>

text \<open>
  C6. \<open>markPostsAsSent\<close> on the empty list returns with the store untouched. On a
  non-empty list of identifiers it returns normally, whether or not rows with these
  identifiers exist, and the stored rows are the former ones with \<open>sent\<close> set on
  exactly the rows whose identifier is in the list.
\<close>

theorem markPostsAsSent_exact:
  "markPostsAsSent SHA2 [] s = (Returned (), s) \<and>
   (ids \<noteq> [] \<longrightarrow>
      markPostsAsSent SHA2 (map Some ids) s =
        (Returned (),
         s\<lparr>posts := map (\<lambda>r. if post_id r \<in> Some ` set ids then r\<lparr>sent := True\<rparr> else r) (posts s)\<rparr>))"
  by (auto simp: markPostsAsSent_def sql_def await_def)

theorem markPostsAsSent_exact_witness:
  "[2, 7] \<noteq> ([] :: nat list) \<and>
   markPostsAsSent (\<lambda>t. t) (map Some [2, 7]) store_xyz =
     (Returned (), store_xyz\<lparr>posts := [row_x, row_y\<lparr>sent := True\<rparr>, row_z]\<rparr>)"
  using markPostsAsSent_exact [of "\<lambda>t. t" store_xyz "[2, 7]"]
  by (simp add: store_xyz_def row_x_def row_y_def row_z_def)

subsection \<open>C3: registering a feed\<close>

text \<open>
  C3 as stated fails: registering an address whose fingerprint is stored does not hand
  an error to the caller. The \<^verbatim>\<open>INSERT\<close> fails inside \<open>sql\<close>, whose
  \<^verbatim>\<open>catch\<close> block ends the process with exit status 1; the \<^verbatim>\<open>catch\<close>
  block of \<open>addFeed\<close> is never reached.
\<close>

theorem addFeed_duplicate_exits_process:
  "addFeed (\<lambda>t. t) False ''http://a.test/feed.xml'' store_ab
     = (Exited 1, store_ab\<lparr>feeds_auto_increment := 4\<rparr>)"
  by code_simp

text \<open>
  C3, as amended. Given an address whose fingerprint is already stored, \<open>addFeed\<close>
  ends the process with exit status 1 and the table \<^verbatim>\<open>feeds\<close> keeps its rows
  (only the \<^verbatim>\<open>AUTO_INCREMENT\<close> counter moves). Given a fresh address, one row is
  appended to \<^verbatim>\<open>feeds\<close>: it carries the next identifier, the address and the
  fingerprint of the address.
\<close>

theorem addFeed_outcomes:
  "((\<exists>r \<in> set (feeds s). url_hash r = Some (SHA2 u)) \<longrightarrow>
       addFeed SHA2 dev u s = (Exited 1, s\<lparr>feeds_auto_increment := Suc (feeds_auto_increment s)\<rparr>))
   \<and> (\<not> (\<exists>r \<in> set (feeds s). url_hash r = Some (SHA2 u)) \<longrightarrow>
       feeds (snd (addFeed SHA2 dev u s)) =
         feeds s @ [\<lparr>feed_id = Some (feeds_auto_increment s), url = u,
                     url_hash = Some (SHA2 u), lastChecked = None\<rparr>])"
  by (simp add: addFeed_def sql_def await_def Let_def)

theorem addFeed_outcomes_witness:
  "(\<exists>r \<in> set (feeds store_ab). url_hash r = Some ''http://a.test/feed.xml'')
   \<and> addFeed (\<lambda>t. t) True ''http://a.test/feed.xml'' store_ab
        = (Exited 1, store_ab\<lparr>feeds_auto_increment := 4\<rparr>)
   \<and> \<not> (\<exists>r \<in> set (feeds store_ab). url_hash r = Some ''http://c.test/feed.xml'')
   \<and> feeds (snd (addFeed (\<lambda>t. t) True ''http://c.test/feed.xml'' store_ab))
        = [feed_a, feed_b, \<lparr>feed_id = Some 3, url = ''http://c.test/feed.xml'',
                            url_hash = Some ''http://c.test/feed.xml'', lastChecked = None\<rparr>]"
  using addFeed_outcomes [of store_ab "\<lambda>t. t" "''http://a.test/feed.xml''" True]
        addFeed_outcomes [of store_ab "\<lambda>t. t" "''http://c.test/feed.xml''" True]
  by (simp add: store_ab_def feed_a_def feed_b_def)

subsection \<open>The methods that read a result back\<close>

text \<open>
  \<open>sql\<close> returns the \<^verbatim>\<open>results\<close> of the driver: the array of rows of a
  \<^verbatim>\<open>SELECT\<close>, the header of an \<^verbatim>\<open>INSERT\<close>. \<open>getUnsentPosts\<close>,
  \<open>listFeeds\<close> and \<open>addFeed\<close> destructure that value once more, so the first two
  keep the first row only and the third fails on the header, which is not iterable.
  (\<^verbatim>\<open>call\<close> in the same file as \<open>sql\<close> uses the returned value as the array of
  rows itself.)
\<close>

lemma addFeed_fresh_throws:
  "\<not> (\<exists>r \<in> set (feeds s). url_hash r = Some (SHA2 u)) \<Longrightarrow> fst (addFeed SHA2 dev u s) = Thrown TypeError"
  by (simp add: addFeed_def sql_def await_def Let_def)

lemma getUnsentPosts_first_row:
  "getUnsentPosts SHA2 False s =
     (Returned (case unsent_rows s of [] \<Rightarrow> JArr [] | r # rs \<Rightarrow> JPost r), s)"
  by (simp add: getUnsentPosts_def sql_def await_def split: list.split)

lemma getUnsentPosts_dev_throws:
  "getUnsentPosts SHA2 True s = (Thrown TypeError, s)"
  by (cases "unsent_rows s") (simp_all add: getUnsentPosts_def sql_def await_def)

lemma listFeeds_first_row:
  "listFeeds SHA2 s =
     (Returned (case feed_rows s of [] \<Rightarrow> JUndefined | f # fs \<Rightarrow> JFeed f), s)"
  by (simp add: listFeeds_def sql_def await_def split: list.split)

text \<open>
  C4, evaluated on the code: the store holds the unsent articles \<open>row_x\<close> (date 10) and
  \<open>row_y\<close> (date 20) and the sent article \<open>row_z\<close>. The statement of
  \<open>getUnsentPosts\<close> selects the two unsent rows, newest first; the method resolves to
  the single object \<open>row_y\<close>, not to a sequence of both.
\<close>

theorem getUnsentPosts_yields_one_row:
  "unsent_rows store_xyz = [row_y, row_x]
   \<and> getUnsentPosts (\<lambda>t. t) False store_xyz = (Returned (JPost row_y), store_xyz)"
  by (simp add: getUnsentPosts_first_row unsent_rows_def store_xyz_def row_x_def row_y_def row_z_def)

section \<open>The feed fetcher\<close>

lemma item_to_post_fields:
  "feedId (item_to_post E i k item) = i"
  "sent (item_to_post E i k item) = False"
  "title (item_to_post E i k item) = (case item_title item of None \<Rightarrow> [] | Some t \<Rightarrow> t)"
  "link (item_to_post E i k item) = (case item_link item of None \<Rightarrow> [] | Some l \<Rightarrow> l)"
  "pubDate (item_to_post E i k item) =
     (case item_pubDate item of None \<Rightarrow> Date_now E k
      | Some str \<Rightarrow> if str = [] then Date_now E k else Date_parse E str)"
  by (simp_all add: item_to_post_def split: option.split)

lemma fetchFeed_returns:
  "\<exists>ps. fetchFeed E dev u i w = (Returned ps, w\<lparr>requests := requests w @ [u]\<rparr>)"
  by (simp add: fetchFeed_def Let_def split: sum.split)

lemma fetchFeed_elements:
  assumes "fetchFeed E dev u i w = (Returned ps, w')" and "p \<in> set ps"
  shows "\<exists>items k. parseURL E u = Inr items \<and> k < length items \<and> p = item_to_post E i k (items ! k)"
proof (cases "parseURL E u")
  case (Inl e)
  with assms show ?thesis by (simp add: fetchFeed_def Let_def)
next
  case (Inr items)
  let ?all = "map (\<lambda>(k, item). item_to_post E i k item) (enumerate 0 items)"
  from assms(1) Inr have "ps = (if dev then take 1 ?all else ?all)"
    by (auto simp: fetchFeed_def Let_def split: if_splits)
  with assms(2) have "p \<in> set ?all" by (auto dest: in_set_takeD split: if_splits)
  then obtain k item where "(k, item) \<in> set (enumerate 0 items)" "p = item_to_post E i k item"
    by auto
  then have "k < length items" "item = items ! k" "p = item_to_post E i k item"
    by (auto simp: in_set_enumerate_eq)
  with Inr show ?thesis by blast
qed

text \<open>
  C7. Every candidate that \<open>fetchFeed\<close> returns for a feed carries the identifier of
  that feed and \<open>sent = False\<close>, and stems from one item of the parsed document: its
  title and its link are the item's, or the empty string when the item has none; its
  date is the instant the item's \<^verbatim>\<open>pubDate\<close> denotes, or the clock reading taken for
  that item when the item has none (or an empty one).
\<close>

theorem fetchFeed_candidates:
  "fetchFeed E dev u i w = (Returned ps, w') \<Longrightarrow> p \<in> set ps \<Longrightarrow>
     feedId p = i \<and> \<not> sent p \<and>
     (\<exists>items k. parseURL E u = Inr items \<and> k < length items \<and>
        title p = (case item_title (items ! k) of None \<Rightarrow> [] | Some t \<Rightarrow> t) \<and>
        link p = (case item_link (items ! k) of None \<Rightarrow> [] | Some l \<Rightarrow> l) \<and>
        pubDate p = (case item_pubDate (items ! k) of None \<Rightarrow> Date_now E k
                     | Some str \<Rightarrow> if str = [] then Date_now E k else Date_parse E str))"
proof -
  assume a: "fetchFeed E dev u i w = (Returned ps, w')" "p \<in> set ps"
  then obtain items k where ik: "parseURL E u = Inr items" "k < length items"
      "p = item_to_post E i k (items ! k)"
    using fetchFeed_elements by blast
  have "feedId p = i" "\<not> sent p" using ik(3) by (simp_all add: item_to_post_fields)
  moreover have "title p = (case item_title (items ! k) of None \<Rightarrow> [] | Some t \<Rightarrow> t)"
    "link p = (case item_link (items ! k) of None \<Rightarrow> [] | Some l \<Rightarrow> l)"
    "pubDate p = (case item_pubDate (items ! k) of None \<Rightarrow> Date_now E k
                     | Some str \<Rightarrow> if str = [] then Date_now E k else Date_parse E str)"
    using ik(3) by (simp_all only: item_to_post_fields)
  ultimately show ?thesis using ik(1,2) by blast
qed

theorem fetchFeed_candidates_witness:
  "fetchFeed env_example True ''http://b.test/feed.xml'' 2 world_ab
     = (Returned [item_to_post env_example 2 0 item_b1],
        world_ab\<lparr>requests := [''http://b.test/feed.xml'']\<rparr>)
   \<and> item_to_post env_example 2 0 item_b1 \<in> set [item_to_post env_example 2 0 item_b1]
   \<and> feedId (item_to_post env_example 2 0 item_b1) = 2
   \<and> \<not> sent (item_to_post env_example 2 0 item_b1)
   \<and> (\<exists>items k. parseURL env_example ''http://b.test/feed.xml'' = Inr items \<and> k < length items \<and>
        title (item_to_post env_example 2 0 item_b1) = (case item_title (items ! k) of None \<Rightarrow> [] | Some t \<Rightarrow> t) \<and>
        link (item_to_post env_example 2 0 item_b1) = (case item_link (items ! k) of None \<Rightarrow> [] | Some l \<Rightarrow> l) \<and>
        pubDate (item_to_post env_example 2 0 item_b1) =
          (case item_pubDate (items ! k) of None \<Rightarrow> Date_now env_example k
           | Some str \<Rightarrow> if str = [] then Date_now env_example k else Date_parse env_example str))"
proof -
  have h1: "fetchFeed env_example True ''http://b.test/feed.xml'' 2 world_ab
     = (Returned [item_to_post env_example 2 0 item_b1],
        world_ab\<lparr>requests := [''http://b.test/feed.xml'']\<rparr>)"
    by (simp add: fetchFeed_def env_example_def world_ab_def enumerate_eq_zip)
  have h2: "item_to_post env_example 2 0 item_b1 \<in> set [item_to_post env_example 2 0 item_b1]"
    by simp
  from fetchFeed_candidates [OF h1 h2] h1 h2 show ?thesis by blast
qed

section \<open>The notifier\<close>

text \<open>
  C8 as stated fails: in development mode \<open>sendNewPosts\<close> returns \<open>True\<close> for a
  non-empty list without handing anything to the mail service, which here would have
  answered with status 500.
\<close>

theorem sendNewPosts_dev_true_without_send:
  "ses_send env_example [row_x] = Inr (Some 500)
   \<and> sendNewPosts env_example True [row_x] world_xyz = (Returned True, world_xyz)"
  by (simp add: sendNewPosts_def env_example_def)

text \<open>
  C8, as amended. On the empty list \<open>sendNewPosts\<close> returns \<open>False\<close> and does
  nothing. On a non-empty list, outside development mode, it hands the digest to the mail
  service once; it throws the error of the service if the service rejects, and otherwise
  returns whether the status of the response is 200, so it returns \<open>True\<close> exactly
  when the send is confirmed. In development mode it sends nothing and returns
  \<open>True\<close>.
\<close>

theorem sendNewPosts_outcomes:
  "sendNewPosts E dev [] w = (Returned False, w)
   \<and> (ps \<noteq> [] \<longrightarrow>
        sendNewPosts E False ps w =
          (case ses_send E ps of
             Inl error \<Rightarrow> (Thrown error, w\<lparr>outbox := outbox w @ [ps]\<rparr>)
           | Inr status \<Rightarrow> (Returned (status = Some 200), w\<lparr>outbox := outbox w @ [ps]\<rparr>))
        \<and> (fst (sendNewPosts E False ps w) = Returned True \<longleftrightarrow> ses_send E ps = Inr (Some 200))
        \<and> sendNewPosts E True ps w = (Returned True, w))"
  by (auto simp: sendNewPosts_def Let_def split: sum.splits)

theorem sendNewPosts_outcomes_witness:
  "[row_x] \<noteq> []
   \<and> sendNewPosts env_example False [row_x] world_xyz
        = (Returned False, world_xyz\<lparr>outbox := [[row_x]]\<rparr>)
   \<and> fst (sendNewPosts env_example False [row_x] world_xyz) \<noteq> Returned True
   \<and> ses_send env_example [row_x] \<noteq> Inr (Some 200)"
  using sendNewPosts_outcomes [of env_example True world_xyz "[row_x]"]
  by (simp add: env_example_def world_xyz_def)

section \<open>The orchestrator\<close>

text \<open>
  \<open>listFeeds\<close> resolves to the first row of the table \<^verbatim>\<open>feeds\<close> or to
  \<^verbatim>\<open>undefined\<close> (\<open>listFeeds_first_row\<close>), never to an array. The
  \<^verbatim>\<open>for\<close> loop of \<open>processFeeds\<close> therefore throws before its first round, the
  \<^verbatim>\<open>catch\<close> block logs the error, and the tick is over: no address is requested,
  nothing is handed to the mail service and the store is left as it was.
\<close>

lemma processFeeds_ends_at_for_of:
  "processFeeds SHA2 E dev w = (Returned (), w)"
  by (cases "feed_rows (store w)")
     (simp_all add: processFeeds_def listFeeds_first_row on_store_def await_def catch_log_def)

lemma fetchFeed_failure:
  "parseURL E u = Inl e \<Longrightarrow> fetchFeed E dev u i w = (Returned [], w\<lparr>requests := requests w @ [u]\<rparr>)"
  by (simp add: fetchFeed_def Let_def)

subsection \<open>C1: marking after delivery\<close>

text \<open>
  C1. No tick sets a sent flag without a confirmed delivery: whatever the mail service
  would answer, and in either mode, a tick leaves every stored article as it was, its
  sent flag included, and hands nothing to the mail service.
\<close>

theorem processFeeds_sets_no_sent_flag:
  "posts (store (snd (processFeeds SHA2 E dev w))) = posts (store w)
   \<and> outbox (snd (processFeeds SHA2 E dev w)) = outbox w"
  by (simp add: processFeeds_ends_at_for_of)

subsection \<open>C5: a feed that cannot be fetched\<close>

text \<open>
  C5, evaluated on the code: two feeds are registered, development mode is off, the
  first feed cannot be retrieved and the second has one entry. \<open>listFeeds\<close> resolves to
  the row of the first feed; the tick ends at the \<^verbatim>\<open>for\<close> loop, so the second feed
  is never requested and its entry is never stored.
\<close>

theorem processFeeds_fetches_no_feed:
  "parseURL env_example (url feed_a) = Inl (Error ''getaddrinfo ENOTFOUND'')
   \<and> parseURL env_example (url feed_b) = Inr [item_b1]
   \<and> listFeeds (\<lambda>t. t) store_ab = (Returned (JFeed (feed_a\<lparr>url_hash := None\<rparr>)), store_ab)
   \<and> processFeeds (\<lambda>t. t) env_example False world_ab = (Returned (), world_ab)
   \<and> requests world_ab = [] \<and> posts (store world_ab) = []"
  by (simp add: processFeeds_ends_at_for_of listFeeds_first_row feed_rows_def
      env_example_def world_ab_def store_ab_def feed_a_def feed_b_def)

end
